theory Spec2Isabelle
  imports Complex_Main "HOL-Library.Sublist"
begin

section \<open>Errors\<close>

text \<open>
  Every exception the Python code of \<^verbatim>\<open>main.py\<close> can raise in the functions embedded
  here is a value of this type; a failing function returns \<open>Inl\<close> of it.
\<close>

datatype error =
    IndexError            \<comment> \<open>string index out of range: \<^verbatim>\<open>col[-1]\<close>, \<^verbatim>\<open>col[1]\<close>\<close>
  | KeyError              \<comment> \<open>missing dictionary key or column label\<close>
  | IntValueError         \<comment> \<open>\<^verbatim>\<open>int(s)\<close>: invalid literal\<close>
  | NotInListValueError   \<comment> \<open>\<^verbatim>\<open>list.index(x)\<close>: x is not in list\<close>
  | RowsValueError        \<comment> \<open>\<^verbatim>\<open>make_subplots\<close>: rows must be an int greater than 0\<close>
  | SpacingValueError     \<comment> \<open>\<^verbatim>\<open>make_subplots\<close>: vertical spacing greater than 1 / (rows - 1)\<close>
  | GridException         \<comment> \<open>\<^verbatim>\<open>add_trace\<close>: the (row, col) pair is out of range\<close>
  | UnboundLocalError     \<comment> \<open>local variable referenced before assignment\<close>
  | FrameValueError       \<comment> \<open>a sub-frame (duplicate column label) stands where a series is needed\<close>
  | ParseValueError       \<comment> \<open>\<^verbatim>\<open>pd.Timedelta\<close> or \<^verbatim>\<open>pd.to_datetime\<close> cannot parse a cell\<close>
  | OverflowError         \<comment> \<open>a time stamp outside the range of 64-bit nanoseconds\<close>

section \<open>Numbers and series\<close>

text \<open>
  The samples of a numerical series are machine numbers (IEEE doubles for a float column),
  and the code computes with them through numpy and pandas: the operators \<^verbatim>\<open>+\<close>,
  \<^verbatim>\<open>-\<close>, \<^verbatim>\<open>*\<close>, the comparisons, and the reductions \<^verbatim>\<open>mean\<close>, \<^verbatim>\<open>std\<close>, \<^verbatim>\<open>min\<close>,
  \<^verbatim>\<open>max\<close>. These operations round, overflow to infinity and propagate NaN, and the
  reductions sum in an order of their own. None of them is code of this program, so the
  model fixes none of them: the type \<open>'f\<close> of samples is arbitrary, and the operations
  are the fields of one record that every function working on samples takes as its first
  argument. Whatever is proved holds for the doubles and the pandas reductions in
  particular.
\<close>

record 'f arithmetic =
  a_of_int :: "int \<Rightarrow> 'f"               \<comment> \<open>a Python int as operand of a float operation\<close>
  a_add :: "'f \<Rightarrow> 'f \<Rightarrow> 'f"             \<comment> \<open>\<^verbatim>\<open>x + y\<close>\<close>
  a_sub :: "'f \<Rightarrow> 'f \<Rightarrow> 'f"             \<comment> \<open>\<^verbatim>\<open>x - y\<close>\<close>
  a_mul :: "'f \<Rightarrow> 'f \<Rightarrow> 'f"             \<comment> \<open>\<^verbatim>\<open>x * y\<close>\<close>
  a_ge :: "'f \<Rightarrow> 'f \<Rightarrow> bool"            \<comment> \<open>\<^verbatim>\<open>x >= y\<close>\<close>
  a_le :: "'f \<Rightarrow> 'f \<Rightarrow> bool"            \<comment> \<open>\<^verbatim>\<open>x <= y\<close>\<close>
  a_ne_zero :: "'f \<Rightarrow> bool"              \<comment> \<open>\<^verbatim>\<open>x != 0\<close>\<close>
  a_truthy :: "'f \<Rightarrow> bool"               \<comment> \<open>\<^verbatim>\<open>bool(x)\<close>\<close>
  a_mean :: "'f list \<Rightarrow> 'f"              \<comment> \<open>\<^verbatim>\<open>Series.mean()\<close> of the values\<close>
  a_std :: "'f list \<Rightarrow> 'f"               \<comment> \<open>\<^verbatim>\<open>Series.std()\<close> of the values\<close>
  a_min :: "'f list \<Rightarrow> 'f"               \<comment> \<open>\<^verbatim>\<open>Series.min()\<close> of the values\<close>
  a_max :: "'f list \<Rightarrow> 'f"               \<comment> \<open>\<^verbatim>\<open>Series.max()\<close> of the values\<close>

text \<open>
  A \<^verbatim>\<open>pd.Series\<close> is its list of (index label, value) entries, in order. Index labels may
  repeat.
\<close>

type_synonym ('i, 'f) series = "('i \<times> 'f) list"

definition ser_values :: "('i, 'f) series \<Rightarrow> 'f list" where
  "ser_values ser = map snd ser"

definition ser_index :: "('i, 'f) series \<Rightarrow> 'i list" where
  "ser_index ser = map fst ser"

definition ser_mean :: "'f arithmetic \<Rightarrow> ('i, 'f) series \<Rightarrow> 'f" where
  \<comment> \<open>\<^verbatim>\<open>ser.mean()\<close>\<close>
  "ser_mean ar ser = a_mean ar (ser_values ser)"

definition ser_std :: "'f arithmetic \<Rightarrow> ('i, 'f) series \<Rightarrow> 'f" where
  \<comment> \<open>\<^verbatim>\<open>ser.std()\<close>\<close>
  "ser_std ar ser = a_std ar (ser_values ser)"

definition ser_min :: "'f arithmetic \<Rightarrow> ('i, 'f) series \<Rightarrow> 'f" where
  \<comment> \<open>\<^verbatim>\<open>y.min()\<close>\<close>
  "ser_min ar ser = a_min ar (ser_values ser)"

definition ser_max :: "'f arithmetic \<Rightarrow> ('i, 'f) series \<Rightarrow> 'f" where
  \<comment> \<open>\<^verbatim>\<open>y.max()\<close>\<close>
  "ser_max ar ser = a_max ar (ser_values ser)"

definition loc_mask :: "('i, 'f) series \<Rightarrow> bool list \<Rightarrow> ('i, 'f) series" where
  \<comment> \<open>\<^verbatim>\<open>ser.loc[fltr]\<close> for a boolean mask \<^verbatim>\<open>fltr\<close> that carries the index of \<^verbatim>\<open>ser\<close>:
      the entries at the positions where the mask is true.\<close>
  "loc_mask ser fltr = map fst (filter snd (zip ser fltr))"

section \<open>Outlier removal\<close>

definition filter_outliers_from_series ::
  "'f arithmetic \<Rightarrow> ('i, 'f) series \<Rightarrow> ('i, 'f) series" where
  "filter_outliers_from_series ar ser =
     (let mu = ser_mean ar ser;
          std = ser_std ar ser;
          lower_limit = a_sub ar mu (a_mul ar (a_of_int ar 3) std);
          upper_limit = a_add ar mu (a_mul ar (a_of_int ar 3) std);
          fltr = map (\<lambda>v. a_ge ar v lower_limit \<and> a_le ar v upper_limit) (ser_values ser)
      in loc_mask ser fltr)"

section \<open>Python helpers\<close>

definition bind_err :: "error + 'a \<Rightarrow> ('a \<Rightarrow> error + 'b) \<Rightarrow> error + 'b" where
  \<comment> \<open>Sequencing: an exception of the first computation ends the whole one.\<close>
  "bind_err m f = (case m of Inl e \<Rightarrow> Inl e | Inr x \<Rightarrow> f x)"

definition str_last :: "string \<Rightarrow> error + char" where
  \<comment> \<open>\<^verbatim>\<open>s[-1]\<close>\<close>
  "str_last s = (if s = [] then Inl IndexError else Inr (last s))"

definition str_at :: "string \<Rightarrow> nat \<Rightarrow> error + char" where
  \<comment> \<open>\<^verbatim>\<open>s[k]\<close> for \<open>k \<ge> 0\<close>\<close>
  "str_at s k = (if k < length s then Inr (s ! k) else Inl IndexError)"

fun list_index :: "'a list \<Rightarrow> 'a \<Rightarrow> nat option" where
  \<comment> \<open>\<^verbatim>\<open>xs.index(x)\<close>: the first position of \<open>x\<close>; \<open>None\<close> where Python raises ValueError.\<close>
  "list_index [] x = None"
| "list_index (y # ys) x = (if y = x then Some 0 else map_option Suc (list_index ys x))"

definition digit_chars :: string where
  "digit_chars = ''0123456789''"

definition int_of_char :: "char \<Rightarrow> error + nat" where
  \<comment> \<open>\<^verbatim>\<open>int(c)\<close> for a string of the single character \<open>c\<close>: a decimal digit or ValueError.\<close>
  "int_of_char c = (case list_index digit_chars c of None \<Rightarrow> Inl IntValueError | Some d \<Rightarrow> Inr d)"

fun str_of_nat :: "nat \<Rightarrow> string" where
  \<comment> \<open>\<^verbatim>\<open>str(n)\<close>, as the f-string formats it\<close>
  "str_of_nat n =
     (if n < 10 then [digit_chars ! n] else str_of_nat (n div 10) @ [digit_chars ! (n mod 10)])"

declare str_of_nat.simps [simp del]

section \<open>Data frames\<close>

text \<open>
  A \<^verbatim>\<open>pd.DataFrame\<close> is its row index and its columns in order, each a label with the
  column's cells. Every column has one cell per index label. Column labels are strings;
  pandas allows a label to repeat, and then \<^verbatim>\<open>df[label]\<close> is a sub-frame, not a series.
\<close>

record ('i, 'c) dataframe =
  df_index :: "'i list"
  df_columns :: "(string \<times> 'c list) list"

definition columns_of :: "('i, 'c) dataframe \<Rightarrow> string list" where
  \<comment> \<open>\<^verbatim>\<open>df.columns\<close>\<close>
  "columns_of df = map fst (df_columns df)"

datatype ('i, 'f) item = Series "('i, 'f) series" | Frame

definition getitem :: "('i, 'f) dataframe \<Rightarrow> string \<Rightarrow> error + ('i, 'f) item" where
  \<comment> \<open>\<^verbatim>\<open>df[col]\<close>\<close>
  "getitem df col =
     (case filter (\<lambda>c. fst c = col) (df_columns df) of
        [] \<Rightarrow> Inl KeyError
      | [c] \<Rightarrow> Inr (Series (zip (df_index df) (snd c)))
      | _ \<Rightarrow> Inr Frame)"

definition loc_columns :: "('i, 'c) dataframe \<Rightarrow> string list \<Rightarrow> error + ('i, 'c) dataframe" where
  \<comment> \<open>\<^verbatim>\<open>df.loc[:, labels]\<close>: for each label in turn, every column that carries it; all rows.\<close>
  "loc_columns df labels =
     (if list_ex (\<lambda>l. l \<notin> set (columns_of df)) labels then Inl KeyError
      else Inr (df\<lparr>df_columns :=
                  concat (map (\<lambda>l. filter (\<lambda>c. fst c = l) (df_columns df)) labels)\<rparr>))"

section \<open>Column selection\<close>

fun select_loop :: "string list \<Rightarrow> string list \<Rightarrow> string list \<Rightarrow> error + string list" where
  \<comment> \<open>the \<^verbatim>\<open>for col in df.columns\<close> loop of \<^verbatim>\<open>filter_df_cols\<close>, with \<^verbatim>\<open>selected_cols\<close>
      as accumulator\<close>
  "select_loop [] type_selection selected_cols = Inr selected_cols"
| "select_loop (col # cols) type_selection selected_cols =
     bind_err (str_last col) (\<lambda>c.
       select_loop cols type_selection
         (if [c] \<in> set type_selection then selected_cols @ [col] else selected_cols))"

definition filter_df_cols ::
  "('i, 'c) dataframe \<Rightarrow> string list \<Rightarrow> error + ('i, 'c) dataframe" where
  \<comment> \<open>The selection is always passed; the default of the Python parameter, all four
      codes, is never used by the callback.\<close>
  "filter_df_cols df type_selection =
     bind_err (select_loop (columns_of df) type_selection [])
       (\<lambda>selected_cols. loc_columns df selected_cols)"

section \<open>Figures\<close>

text \<open>
  The part of plotly the code uses. \<^verbatim>\<open>make_subplots(rows, cols=1, subplot_titles)\<close>
  refuses a grid of zero rows and, at the vertical spacing 0.02 the code passes, a grid of
  more than 51 rows (the spacing may not exceed 1 / (rows - 1)); it builds one subplot per
  grid cell and titles the first cells in order (titles beyond the grid are ignored).
  \<^verbatim>\<open>add_trace(trace, row, col)\<close> refuses a cell outside the grid.
\<close>

datatype visible = VisibleTrue | LegendOnly

record ('i, 'f) trace =
  tr_x :: "'i list"
  tr_y :: "'f list"
  tr_legendgroup :: string
  tr_name :: string
  tr_showlegend :: bool
  tr_visible :: visible
  tr_line_color :: string
  tr_row :: nat
  tr_col :: nat

record ('i, 'f) figure =
  fig_rows :: nat
  fig_cols :: nat
  fig_titles :: "string list"
  fig_traces :: "('i, 'f) trace list"
  fig_height :: "nat option"
  fig_width :: "nat option"

definition make_subplots :: "nat \<Rightarrow> string list \<Rightarrow> error + ('i, 'f) figure" where
  "make_subplots rows subplot_titles =
     (if rows = 0 then Inl RowsValueError
      else if 51 < rows then Inl SpacingValueError
      else Inr \<lparr>fig_rows = rows, fig_cols = 1, fig_titles = take rows subplot_titles,
                fig_traces = [], fig_height = None, fig_width = None\<rparr>)"

definition add_trace ::
  "('i, 'f) figure \<Rightarrow> ('i, 'f) trace \<Rightarrow> error + ('i, 'f) figure" where
  "add_trace fig tr =
     (if tr_row tr = 0 \<or> tr_col tr = 0 \<or> fig_rows fig < tr_row tr \<or> fig_cols fig < tr_col tr
      then Inl GridException
      else Inr (fig\<lparr>fig_traces := fig_traces fig @ [tr]\<rparr>))"

definition update_layout :: "('i, 'f) figure \<Rightarrow> nat \<Rightarrow> nat \<Rightarrow> ('i, 'f) figure" where
  "update_layout fig height width = fig\<lparr>fig_height := Some height, fig_width := Some width\<rparr>"

section \<open>Labels, colours and controls\<close>

definition label_dict :: "(string \<times> string) list" where
  "label_dict = [(''p'', ''real power''), (''q'', ''imaginary power''),
                 (''i'', ''current''), (''v'', ''voltage'')]"

definition color_dict :: "(nat \<times> string) list" where
  "color_dict = [(1, ''red''), (2, ''blue''), (3, ''green'')]"

record dropdown_option =
  opt_label :: string
  opt_value :: string

definition dropdown_options :: "dropdown_option list" where
  "dropdown_options = map (\<lambda>(k, v). \<lparr>opt_label = v, opt_value = k\<rparr>) label_dict"

fun subplot_titles_of :: "string list \<Rightarrow> error + string list" where
  \<comment> \<open>\<^verbatim>\<open>[f"{label_dict[sym]} ({sym})" for sym in type_selection]\<close>\<close>
  "subplot_titles_of [] = Inr []"
| "subplot_titles_of (symb # symbs) =
     (case map_of label_dict symb of
        None \<Rightarrow> Inl KeyError
      | Some l \<Rightarrow> bind_err (subplot_titles_of symbs) (\<lambda>ts. Inr ((l @ '' ('' @ symb @ '')'') # ts)))"

section \<open>Building the figure\<close>

definition py_and :: "'f arithmetic \<Rightarrow> 'f \<Rightarrow> 'f \<Rightarrow> 'f" where
  \<comment> \<open>\<^verbatim>\<open>a and b\<close>: \<open>a\<close> if it is falsy, else \<open>b\<close>\<close>
  "py_and ar a b = (if a_truthy ar a then b else a)"

definition plot_column ::
  "'f arithmetic \<Rightarrow> ('i, 'f) dataframe \<Rightarrow> string list \<Rightarrow> bool \<Rightarrow> string
     \<Rightarrow> ('i, 'f) figure \<times> string list \<Rightarrow> error + (('i, 'f) figure \<times> string list)" where
  \<comment> \<open>one pass of the body of the \<^verbatim>\<open>for i, col in enumerate(val_cols)\<close> loop, on the
      figure and \<^verbatim>\<open>legend_lst\<close>\<close>
  "plot_column ar df type_selection filter_outliers col st =
     (let (fig, legend_lst) = st in
      bind_err (getitem df col) (\<lambda>y0.
      bind_err (if filter_outliers
                then (case y0 of Series s \<Rightarrow> Inr (Series (filter_outliers_from_series ar s))
                               | Frame \<Rightarrow> Inl FrameValueError)
                else Inr y0) (\<lambda>y.
      bind_err (str_at col 1) (\<lambda>c1.
      bind_err (int_of_char c1) (\<lambda>phase_num.
      bind_err (str_last col) (\<lambda>val_type.
      bind_err (case y of Series s \<Rightarrow> Inr s | Frame \<Rightarrow> Inl FrameValueError) (\<lambda>ys.
      let is_non_zero = a_ne_zero ar (py_and ar (ser_min ar ys) (ser_max ar ys));
          visible_setting = (if is_non_zero then VisibleTrue else LegendOnly)
      in
      bind_err (case list_index type_selection [val_type] of
                  None \<Rightarrow> Inl NotInListValueError | Some k \<Rightarrow> Inr (k + 1)) (\<lambda>row_num.
      bind_err (case map_of color_dict phase_num of
                  None \<Rightarrow> Inl KeyError | Some c \<Rightarrow> Inr c) (\<lambda>color.
      let legendgroup_name = ''phase '' @ str_of_nat phase_num;
          showlegend = (legendgroup_name \<notin> set legend_lst);
          legend_lst' = (if showlegend then legend_lst @ [legendgroup_name] else legend_lst)
      in
      bind_err (add_trace fig
                 \<lparr>tr_x = ser_index ys, tr_y = ser_values ys,
                  tr_legendgroup = legendgroup_name, tr_name = legendgroup_name,
                  tr_showlegend = showlegend, tr_visible = visible_setting,
                  tr_line_color = color, tr_row = row_num, tr_col = 1\<rparr>) (\<lambda>fig'.
      Inr (fig', legend_lst')))))))))))"

fun figure_loop ::
  "'f arithmetic \<Rightarrow> ('i, 'f) dataframe \<Rightarrow> string list \<Rightarrow> bool \<Rightarrow> (nat \<times> string) list
     \<Rightarrow> (('i, 'f) figure \<times> string list) \<times> nat option
     \<Rightarrow> error + ((('i, 'f) figure \<times> string list) \<times> nat option)" where
  \<comment> \<open>the loop over \<^verbatim>\<open>enumerate(val_cols)\<close>; the last component is the loop variable
      \<^verbatim>\<open>i\<close>, unbound (\<open>None\<close>) until the first pass\<close>
  "figure_loop ar df type_selection filter_outliers [] st = Inr st"
| "figure_loop ar df type_selection filter_outliers ((i, col) # rest) st =
     bind_err (plot_column ar df type_selection filter_outliers col (fst st))
       (\<lambda>st'. figure_loop ar df type_selection filter_outliers rest (st', Some i))"

definition layout_step :: "('i, 'f) figure \<Rightarrow> nat option \<Rightarrow> error + ('i, 'f) figure" where
  \<comment> \<open>\<^verbatim>\<open>fig.update_layout(height=(200*(i+1)), width=600)\<close>\<close>
  "layout_step fig i =
     (case i of None \<Rightarrow> Inl UnboundLocalError
      | Some k \<Rightarrow> Inr (update_layout fig (200 * (k + 1)) 600))"

definition make_figure ::
  "'f arithmetic \<Rightarrow> ('i, 'f) dataframe \<Rightarrow> string list \<Rightarrow> bool \<Rightarrow> error + ('i, 'f) figure" where
  "make_figure ar df type_selection filter_outliers =
     (let val_cols = columns_of df in
      bind_err (subplot_titles_of type_selection) (\<lambda>subplot_titles.
      bind_err (make_subplots (length val_cols) subplot_titles) (\<lambda>fig.
      bind_err (figure_loop ar df type_selection filter_outliers
                  (zip [0..<length val_cols] val_cols) ((fig, []), None)) (\<lambda>st.
      layout_step (fst (fst st)) (snd st)))))"

section \<open>The callback\<close>

definition update_graph ::
  "'f arithmetic \<Rightarrow> ('i, 'f) dataframe \<Rightarrow> string list \<Rightarrow> string \<Rightarrow> error + ('i, 'f) figure" where
  \<comment> \<open>The module-level frame \<^verbatim>\<open>DF\<close> is the second argument. The Python returns the
      one-element tuple of the figure.\<close>
  "update_graph ar DF type_selection outlier_radio =
     (let outlier_radio_bool = (if outlier_radio = ''include'' then False else True) in
      bind_err (filter_df_cols DF type_selection) (\<lambda>tdf.
      make_figure ar tdf type_selection outlier_radio_bool))"

section \<open>Loading: the timestamp index\<close>

text \<open>
  \<^verbatim>\<open>prep_datetime\<close> works on the frame read from the CSV file, whose cells are of any
  kind: text, numbers, and after the conversion time spans, time stamps and NaT. What the
  three pandas operations it calls return, or whether they raise, is decided inside pandas
  (parsing of text, arithmetic on 64-bit nanoseconds that raises on overflow, NaT), so
  each is a field of a record that the model takes as argument: \<^verbatim>\<open>Series.apply(pd.Timedelta)\<close>,
  \<^verbatim>\<open>pd.to_datetime\<close> of a series, and the sum of two series over the same index. When one
  of the labels \<^verbatim>\<open>day\<close>, \<^verbatim>\<open>time\<close>, \<^verbatim>\<open>datetime\<close> is carried by several columns,
  \<^verbatim>\<open>df[label]\<close> is a sub-frame and what the steps of the function do with it differs
  between pandas versions; the outcome on such a frame is the fourth field.
\<close>

record ('i, 'c) pandas_ops =
  pd_apply_timedelta :: "'c list \<Rightarrow> error + 'c list"
  pd_to_datetime :: "'c list \<Rightarrow> error + 'c list"
  pd_add :: "'c list \<Rightarrow> 'c list \<Rightarrow> error + 'c list"
  pd_duplicate_labels ::
    "('i, 'c) dataframe \<Rightarrow> error + (('i, 'c) dataframe \<times> ('c, 'c) dataframe)"

definition label_count :: "('i, 'c) dataframe \<Rightarrow> string \<Rightarrow> nat" where
  "label_count df label = length (filter (\<lambda>c. fst c = label) (df_columns df))"

definition getcol :: "('i, 'c) dataframe \<Rightarrow> string \<Rightarrow> error + 'c list" where
  \<comment> \<open>\<^verbatim>\<open>df[label]\<close> for a label that at most one column carries: the cells of that column\<close>
  "getcol df label =
     (case filter (\<lambda>c. fst c = label) (df_columns df) of
        [] \<Rightarrow> Inl KeyError
      | c # _ \<Rightarrow> Inr (snd c))"

definition setitem :: "('i, 'c) dataframe \<Rightarrow> string \<Rightarrow> 'c list \<Rightarrow> ('i, 'c) dataframe" where
  \<comment> \<open>\<^verbatim>\<open>df[label] = cells\<close>: overwrites the column of that label in place, or appends a
      new last column\<close>
  "setitem df label cells =
     (if label \<in> set (columns_of df)
      then df\<lparr>df_columns :=
                map (\<lambda>c. if fst c = label then (label, cells) else c) (df_columns df)\<rparr>
      else df\<lparr>df_columns := df_columns df @ [(label, cells)]\<rparr>)"

definition set_index :: "('i, 'c) dataframe \<Rightarrow> string \<Rightarrow> error + ('c, 'c) dataframe" where
  \<comment> \<open>\<^verbatim>\<open>df.set_index(label)\<close> for a label that at most one column carries: the column
      becomes the row index and leaves the columns\<close>
  "set_index df label =
     bind_err (getcol df label) (\<lambda>cells.
       Inr \<lparr>df_index = cells,
            df_columns = filter (\<lambda>c. fst c \<noteq> label) (df_columns df)\<rparr>)"

definition drop_columns :: "('i, 'c) dataframe \<Rightarrow> string list \<Rightarrow> error + ('i, 'c) dataframe" where
  \<comment> \<open>\<^verbatim>\<open>df.drop(columns=labels)\<close>\<close>
  "drop_columns df labels =
     (if list_ex (\<lambda>l. l \<notin> set (columns_of df)) labels then Inl KeyError
      else Inr (df\<lparr>df_columns := filter (\<lambda>c. fst c \<notin> set labels) (df_columns df)\<rparr>))"

definition prep_datetime ::
  "('i, 'c) pandas_ops \<Rightarrow> ('i, 'c) dataframe
     \<Rightarrow> error + (('i, 'c) dataframe \<times> ('c, 'c) dataframe)" where
  \<comment> \<open>The result pairs the caller's frame as the two assignments leave it (they work in
      place) with the frame the function returns.\<close>
  "prep_datetime ops df =
     (if list_ex (\<lambda>l. 1 < label_count df l) [''day'', ''time'', ''datetime'']
      then pd_duplicate_labels ops df
      else
     bind_err (getcol df ''time'') (\<lambda>time_cells.
     bind_err (pd_apply_timedelta ops time_cells) (\<lambda>spans.
     let df1 = setitem df ''time'' spans in
     bind_err (getcol df1 ''day'') (\<lambda>day_cells.
     bind_err (pd_to_datetime ops day_cells) (\<lambda>days.
     bind_err (getcol df1 ''time'') (\<lambda>spans'.
     bind_err (pd_add ops days spans') (\<lambda>stamps.
     let df2 = setitem df1 ''datetime'' stamps in
     bind_err (set_index df2 ''datetime'') (\<lambda>df3.
     bind_err (drop_columns df3 [''day'', ''time'']) (\<lambda>df4.
     Inr (df2, df4))))))))))"

section \<open>Sample inputs\<close>

text \<open>
  The inputs on which the theorems below are instantiated. A sample number is a real or
  NaN (\<open>None\<close>), and \<open>exact_arith\<close> is the arithmetic without rounding on them: NaN
  propagates, a comparison with NaN is false, the reductions skip NaN, and the standard
  deviation is the sample one. It is one arithmetic among those the theorems cover; the
  doubles agree with it on the sample series, whose sums, means and deviations are small
  integers.
\<close>

type_synonym num = "real option"

definition num_add :: "num \<Rightarrow> num \<Rightarrow> num" where
  "num_add a b = (case (a, b) of (Some x, Some y) \<Rightarrow> Some (x + y) | _ \<Rightarrow> None)"

definition num_sub :: "num \<Rightarrow> num \<Rightarrow> num" where
  "num_sub a b = (case (a, b) of (Some x, Some y) \<Rightarrow> Some (x - y) | _ \<Rightarrow> None)"

definition num_mul :: "num \<Rightarrow> num \<Rightarrow> num" where
  "num_mul a b = (case (a, b) of (Some x, Some y) \<Rightarrow> Some (x * y) | _ \<Rightarrow> None)"

definition num_le :: "num \<Rightarrow> num \<Rightarrow> bool" where
  "num_le a b = (case (a, b) of (Some x, Some y) \<Rightarrow> x \<le> y | _ \<Rightarrow> False)"

definition num_ge :: "num \<Rightarrow> num \<Rightarrow> bool" where
  "num_ge a b = (case (a, b) of (Some x, Some y) \<Rightarrow> x \<ge> y | _ \<Rightarrow> False)"

definition dropna :: "num list \<Rightarrow> real list" where
  "dropna vs = List.map_filter (\<lambda>v. v) vs"

definition num_mean :: "num list \<Rightarrow> num" where
  "num_mean vs =
     (let xs = dropna vs
      in if xs = [] then None else Some (sum_list xs / real (length xs)))"

definition num_std :: "num list \<Rightarrow> num" where
  "num_std vs =
     (let xs = dropna vs; n = length xs
      in if n < 2 then None
         else (let m = sum_list xs / real n
               in Some (sqrt (sum_list (map (\<lambda>x. (x - m)\<^sup>2) xs) / real (n - 1)))))"

definition num_min :: "num list \<Rightarrow> num" where
  "num_min vs = (case dropna vs of [] \<Rightarrow> None | x # xs \<Rightarrow> Some (fold min xs x))"

definition num_max :: "num list \<Rightarrow> num" where
  "num_max vs = (case dropna vs of [] \<Rightarrow> None | x # xs \<Rightarrow> Some (fold max xs x))"

definition num_ne_zero :: "num \<Rightarrow> bool" where
  "num_ne_zero v = (v \<noteq> Some 0)"

definition num_of_int :: "int \<Rightarrow> num" where
  "num_of_int n = Some (of_int n)"

definition exact_arith :: "num arithmetic" where
  "exact_arith =
     \<lparr>a_of_int = num_of_int, a_add = num_add, a_sub = num_sub, a_mul = num_mul,
      a_ge = num_ge, a_le = num_le, a_ne_zero = num_ne_zero, a_truthy = num_ne_zero,
      a_mean = num_mean, a_std = num_std, a_min = num_min, a_max = num_max\<rparr>"

definition spike_series :: "(int, num) series" where
  "spike_series = [(0, Some 0), (1, Some 0), (2, Some 0), (3, Some 0), (4, Some 0), (5, Some 0),
          (6, Some 0), (7, Some 0), (8, Some 0), (9, Some 0), (10, Some 0), (11, Some 0),
          (12, Some 0), (13, Some 0), (14, Some 0), (15, Some 16)]"

definition sample_df :: "(int, num) dataframe" where
  "sample_df = \<lparr>df_index = [0, 1, 2],
                df_columns = [(''L1p'', [Some 1, None, Some 1]),
                              (''L2p'', [Some 0, Some 0, Some 0]),
                              (''L1q'', [Some 5, Some 6, Some 7]),
                              (''L1v'', [Some 230, Some 230, Some 230])]\<rparr>"

definition sample_tdf :: "(int, num) dataframe" where
  "sample_tdf = \<lparr>df_index = [0, 1, 2],
                df_columns = [(''L1p'', [Some 1, None, Some 1]),
                              (''L2p'', [Some 0, Some 0, Some 0]),
                              (''L1v'', [Some 230, Some 230, Some 230])]\<rparr>"

definition empty_df :: "(int, num) dataframe" where
  "empty_df = \<lparr>df_index = [0, 1, 2], df_columns = []\<rparr>"

definition phase_df :: "(int, num) dataframe" where
  "phase_df = \<lparr>df_index = [0, 1],
               df_columns = [(''L1p'', [Some 1, Some 2]), (''L2p'', [Some 3, Some 4]),
                             (''L3p'', [Some 5, Some 6])]\<rparr>"

text \<open>
  Sample cells, and one table of what the pandas operations return on the columns of the
  sample frames below: the nanosecond values of the two days and the three times of day,
  the ValueError for text that is no time span or no day, the OverflowError for a sum
  past the last time stamp of 64-bit nanoseconds (2262-04-11 23:47:16.854775807), and the
  ValueError for a frame with two \<^verbatim>\<open>day\<close> or two \<^verbatim>\<open>time\<close> columns. The table
  answers with an error on every other column; the theorems hold for every table.
\<close>

datatype cell = Str string | Num real | Timedelta int | Timestamp int

definition sample_apply_timedelta :: "cell list \<Rightarrow> error + cell list" where
  "sample_apply_timedelta cells =
     (if cells = [Str ''00:00:01'', Str ''00:00:02'']
      then Inr [Timedelta 1000000000, Timedelta 2000000000]
      else if cells = [Str ''00:00:01'']
      then Inr [Timedelta 1000000000]
      else if cells = [Str ''23:59:59'']
      then Inr [Timedelta 86399000000000]
      else Inl ParseValueError)"

definition sample_to_datetime :: "cell list \<Rightarrow> error + cell list" where
  "sample_to_datetime cells =
     (if cells = [Str ''2020-01-01'', Str ''2020-01-01'']
      then Inr [Timestamp 1577836800000000000, Timestamp 1577836800000000000]
      else if cells = [Str ''2262-04-11'']
      then Inr [Timestamp 9223286400000000000]
      else Inl ParseValueError)"

definition sample_add :: "cell list \<Rightarrow> cell list \<Rightarrow> error + cell list" where
  "sample_add days spans =
     (if days = [Timestamp 1577836800000000000, Timestamp 1577836800000000000]
         \<and> spans = [Timedelta 1000000000, Timedelta 2000000000]
      then Inr [Timestamp 1577836801000000000, Timestamp 1577836802000000000]
      else if days = [Timestamp 9223286400000000000] \<and> spans = [Timedelta 86399000000000]
      then Inl OverflowError
      else Inl ParseValueError)"

definition sample_ops :: "(int, cell) pandas_ops" where
  "sample_ops =
     \<lparr>pd_apply_timedelta = sample_apply_timedelta, pd_to_datetime = sample_to_datetime,
      pd_add = sample_add, pd_duplicate_labels = (\<lambda>df. Inl FrameValueError)\<rparr>"

definition raw_df :: "(int, cell) dataframe" where
  "raw_df = \<lparr>df_index = [0, 1],
             df_columns = [(''day'', [Str ''2020-01-01'', Str ''2020-01-01'']),
                           (''time'', [Str ''00:00:01'', Str ''00:00:02'']),
                           (''L1p'', [Num 1, Num 2])]\<rparr>"

definition raw_df_datetime :: "(int, cell) dataframe" where
  "raw_df_datetime = \<lparr>df_index = [0, 1],
             df_columns = [(''day'', [Str ''2020-01-01'', Str ''2020-01-01'']),
                           (''time'', [Str ''00:00:01'', Str ''00:00:02'']),
                           (''datetime'', [Str ''a'', Str ''b'']),
                           (''L1p'', [Num 1, Num 2])]\<rparr>"

definition raw_df_no_span :: "(int, cell) dataframe" where
  "raw_df_no_span = \<lparr>df_index = [0],
             df_columns = [(''day'', [Str ''2020-01-01'']),
                           (''time'', [Str ''abc'']),
                           (''L1p'', [Num 1])]\<rparr>"

definition raw_df_no_day :: "(int, cell) dataframe" where
  "raw_df_no_day = \<lparr>df_index = [0],
             df_columns = [(''day'', [Str ''xyz'']),
                           (''time'', [Str ''00:00:01'']),
                           (''L1p'', [Num 1])]\<rparr>"

definition raw_df_two_days :: "(int, cell) dataframe" where
  "raw_df_two_days = \<lparr>df_index = [0],
             df_columns = [(''day'', [Str ''2020-01-01'']),
                           (''day'', [Str ''2020-01-01'']),
                           (''time'', [Str ''00:00:01'']),
                           (''L1p'', [Num 1])]\<rparr>"

definition raw_df_two_times :: "(int, cell) dataframe" where
  "raw_df_two_times = \<lparr>df_index = [0],
             df_columns = [(''day'', [Str ''2020-01-01'']),
                           (''time'', [Str ''00:00:01'']),
                           (''time'', [Str ''00:00:02'']),
                           (''L1p'', [Num 1])]\<rparr>"

definition raw_df_late :: "(int, cell) dataframe" where
  "raw_df_late = \<lparr>df_index = [0],
             df_columns = [(''day'', [Str ''2262-04-11'']),
                           (''time'', [Str ''23:59:59'']),
                           (''L1p'', [Num 1])]\<rparr>"

section \<open>Basic facts\<close>

lemma bind_err_simps [simp]:
  "bind_err (Inl e) f = Inl e"
  "bind_err (Inr x) f = f x"
  by (simp_all add: bind_err_def)

lemma bind_err_eq_Inr: "bind_err m f = Inr y \<longleftrightarrow> (\<exists>x. m = Inr x \<and> f x = Inr y)"
  by (cases m) simp_all

lemma bind_err_eq_Inl: "bind_err m f = Inl e \<longleftrightarrow> m = Inl e \<or> (\<exists>x. m = Inr x \<and> f x = Inl e)"
  by (cases m) auto

section \<open>Outlier removal keeps the samples within three standard deviations\<close>

lemma loc_mask_map:
  "loc_mask ser (map P (map snd ser)) = filter (\<lambda>e. P (snd e)) ser"
  by (induction ser) (auto simp: loc_mask_def)

text \<open>
  C1. \<^verbatim>\<open>filter_outliers_from_series\<close> keeps an entry of the series exactly when its value
  \<open>v\<close> satisfies \<^verbatim>\<open>v >= mean - 3*std\<close> and \<^verbatim>\<open>v <= mean + 3*std\<close>: the value lies
  between the mean minus three standard deviations and the mean plus three standard
  deviations, both bounds included. Mean and standard deviation are those pandas computes
  for the whole input series, once; the difference, the product, the sum and the two
  comparisons are the operations of the machine numbers. The entries that are kept stay
  in their order. This holds for every arithmetic, that of the doubles included.
\<close>

theorem filter_outliers_three_sigma:
  "filter_outliers_from_series ar ser =
     filter (\<lambda>(i, v).
               a_ge ar v (a_sub ar (ser_mean ar ser) (a_mul ar (a_of_int ar 3) (ser_std ar ser)))
             \<and> a_le ar v (a_add ar (ser_mean ar ser) (a_mul ar (a_of_int ar 3) (ser_std ar ser))))
            ser"
  unfolding filter_outliers_from_series_def Let_def ser_values_def loc_mask_map
  by (rule filter_cong [OF refl]) auto

text \<open>
  In the arithmetic without rounding the two comparisons are the inequalities of the
  reals; a NaN sample is dropped, and nothing is kept when the mean or the standard
  deviation is NaN.
\<close>

lemma filter_outliers_exact:
  "filter_outliers_from_series exact_arith ser =
     filter (\<lambda>(i, v). \<exists>x m s. v = Some x \<and> num_mean (map snd ser) = Some m
                        \<and> num_std (map snd ser) = Some s
                        \<and> m - 3 * s \<le> x \<and> x \<le> m + 3 * s) ser"
  unfolding filter_outliers_from_series_def Let_def ser_values_def loc_mask_map
    ser_mean_def ser_std_def
  by (rule filter_cong [OF refl])
     (auto simp: exact_arith_def num_of_int_def num_ge_def num_le_def num_sub_def num_add_def
        num_mul_def split: option.splits)

lemma filter_outliers_as_filter:
  "\<exists>P. filter_outliers_from_series ar ser = filter P ser"
  unfolding filter_outliers_from_series_def Let_def ser_values_def loc_mask_map by blast

text \<open>
  C9. The output of \<^verbatim>\<open>filter_outliers_from_series\<close> is a sub-series of its input: its
  entries are entries of the input, unmodified and in their original relative order.
\<close>

theorem filter_outliers_subseries:
  "subseq (filter_outliers_from_series ar ser) ser
   \<and> set (filter_outliers_from_series ar ser) \<subseteq> set ser"
proof -
  obtain P where "filter_outliers_from_series ar ser = filter P ser"
    using filter_outliers_as_filter by blast
  then show ?thesis by simp
qed

lemma sqrt_16: "sqrt 16 = 4"
  using real_sqrt_abs [of 4] by simp

lemma spike_series_mean: "ser_mean exact_arith spike_series = Some 1"
  by (simp add: spike_series_def ser_mean_def exact_arith_def num_mean_def dropna_def
      ser_values_def List.map_filter_def)

lemma spike_series_std: "ser_std exact_arith spike_series = Some 4"
  by (simp add: spike_series_def ser_std_def exact_arith_def num_std_def dropna_def
      ser_values_def List.map_filter_def power2_eq_square sqrt_16)

lemma spike_series_filtered:
  "filter_outliers_from_series exact_arith spike_series = take 15 spike_series"
  unfolding filter_outliers_from_series_def Let_def spike_series_mean spike_series_std
  by (simp add: spike_series_def ser_values_def loc_mask_def exact_arith_def num_of_int_def
      num_add_def num_sub_def num_mul_def num_le_def num_ge_def)

theorem filter_outliers_three_sigma_witness:
  "filter_outliers_from_series exact_arith spike_series =
     [(0, Some 0), (1, Some 0), (2, Some 0), (3, Some 0), (4, Some 0), (5, Some 0),
      (6, Some 0), (7, Some 0), (8, Some 0), (9, Some 0), (10, Some 0), (11, Some 0),
      (12, Some 0), (13, Some 0), (14, Some 0)]"
  using filter_outliers_three_sigma [of exact_arith spike_series]
  unfolding spike_series_mean spike_series_std
  by (simp add: spike_series_def exact_arith_def num_of_int_def num_add_def num_sub_def
      num_mul_def num_le_def num_ge_def)

theorem filter_outliers_subseries_witness:
  "subseq (take 15 spike_series) spike_series
   \<and> set (take 15 spike_series) \<subseteq> set spike_series"
  using filter_outliers_subseries [of exact_arith spike_series] spike_series_filtered
  by simp

section \<open>Column selection\<close>

lemma select_loop_eq:
  "select_loop cols S acc =
     (if [] \<in> set cols then Inl IndexError
      else Inr (acc @ filter (\<lambda>n. [last n] \<in> set S) cols))"
  by (induction cols arbitrary: acc) (auto simp: str_last_def)

lemma filter_label_unique:
  "distinct (map fst F) \<Longrightarrow> c \<in> set F \<Longrightarrow> filter (\<lambda>c'. fst c' = fst c) F = [c]"
proof (induction F)
  case Nil
  then show ?case by simp
next
  case (Cons a F)
  show ?case
  proof (cases "a = c")
    case True
    have "filter (\<lambda>c'. fst c' = fst c) F = []"
      using Cons.prems(1) True by (auto simp: filter_empty_conv image_iff)
    then show ?thesis using True by simp
  next
    case False
    then have "c \<in> set F" using Cons.prems(2) by simp
    moreover have "fst a \<noteq> fst c"
      using Cons.prems(1) \<open>c \<in> set F\<close> by force
    ultimately show ?thesis using Cons by simp
  qed
qed

lemma concat_selected_columns:
  assumes "distinct (filter P (map fst cols))"
  shows "concat (map (\<lambda>l. filter (\<lambda>c. fst c = l) cols) (filter P (map fst cols)))
           = filter (\<lambda>c. P (fst c)) cols"
proof -
  let ?F = "filter (\<lambda>c. P (fst c)) cols"
  have sel: "filter P (map fst cols) = map fst ?F"
    by (simp add: filter_map comp_def)
  have one: "filter (\<lambda>c'. fst c' = fst c) cols = [c]" if "c \<in> set ?F" for c
  proof -
    have "filter (\<lambda>c'. fst c' = fst c) cols = filter (\<lambda>c'. fst c' = fst c) ?F"
      using that by (auto intro: filter_cong)
    also have "\<dots> = [c]"
      using assms that unfolding sel by (rule filter_label_unique)
    finally show ?thesis .
  qed
  have single: "map (\<lambda>l. filter (\<lambda>c. fst c = l) cols) (map fst ?F) = map (\<lambda>c. [c]) ?F"
    unfolding map_map by (rule map_cong) (simp_all add: one)
  show ?thesis unfolding sel single by simp
qed

lemma loc_columns_selected:
  "loc_columns df (filter P (columns_of df)) =
     Inr (df\<lparr>df_columns := concat (map (\<lambda>l. filter (\<lambda>c. fst c = l) (df_columns df))
                                       (filter P (columns_of df)))\<rparr>)"
  by (simp add: loc_columns_def list_ex_iff)

lemma filter_df_cols_eq:
  "filter_df_cols df S =
     (if [] \<in> set (columns_of df) then Inl IndexError
      else Inr (df\<lparr>df_columns :=
                  concat (map (\<lambda>l. filter (\<lambda>c. fst c = l) (df_columns df))
                              (filter (\<lambda>n. [last n] \<in> set S) (columns_of df)))\<rparr>))"
  by (simp add: filter_df_cols_def select_loop_eq loc_columns_selected)

text \<open>
  C3, as amended. For a frame whose column names are all non-empty and whose selected
  names (those whose last character is a member of \<open>S\<close>) are pairwise distinct,
  \<^verbatim>\<open>filter_df_cols\<close> returns the frame restricted to exactly the columns whose last
  character is a member of \<open>S\<close>: the surviving columns keep their order, and the row
  index and every kept cell are unchanged.
\<close>

theorem filter_df_cols_restricts:
  assumes "[] \<notin> set (columns_of df)"
    and "distinct (filter (\<lambda>n. [last n] \<in> set S) (columns_of df))"
  shows "filter_df_cols df S =
           Inr (df\<lparr>df_columns := filter (\<lambda>c. [last (fst c)] \<in> set S) (df_columns df)\<rparr>)"
  using assms concat_selected_columns [of "\<lambda>n. [last n] \<in> set S" "df_columns df"]
  by (simp add: filter_df_cols_eq columns_of_def)

text \<open>
  C3 as stated fails on two frames: a column with the empty name makes \<^verbatim>\<open>col[-1]\<close>
  raise IndexError, and a selected label carried by two columns comes back four times,
  since \<^verbatim>\<open>df.loc[:, selected_cols]\<close> returns every column of a label for each of its
  occurrences in \<^verbatim>\<open>selected_cols\<close>.
\<close>

theorem filter_df_cols_counterexample:
  "filter_df_cols \<lparr>df_index = [0::nat], df_columns = [('''', [Some 1 :: num])]\<rparr> [''p'']
     = Inl IndexError
   \<and> filter_df_cols \<lparr>df_index = [0::nat],
                      df_columns = [(''ap'', [Some 1 :: num]), (''ap'', [Some 2])]\<rparr> [''p'']
     = Inr \<lparr>df_index = [0], df_columns = [(''ap'', [Some 1]), (''ap'', [Some 2]),
                                           (''ap'', [Some 1]), (''ap'', [Some 2])]\<rparr>"
  by (simp add: filter_df_cols_eq columns_of_def)

theorem filter_df_cols_restricts_witness:
  "filter_df_cols \<lparr>df_index = [0::nat, 1],
                   df_columns = [(''L1p'', [Some 1 :: num, Some 2]), (''L1q'', [Some 3, None]),
                                 (''L2p'', [Some 0, Some 0]), (''L1v'', [Some 230, Some 231])]\<rparr>
                  [''v'', ''p'']
     = Inr \<lparr>df_index = [0, 1],
            df_columns = [(''L1p'', [Some 1, Some 2]), (''L2p'', [Some 0, Some 0]),
                          (''L1v'', [Some 230, Some 231])]\<rparr>"
  using filter_df_cols_restricts [of "\<lparr>df_index = [0::nat, 1],
                   df_columns = [(''L1p'', [Some 1 :: num, Some 2]), (''L1q'', [Some 3, None]),
                                 (''L2p'', [Some 0, Some 0]), (''L1v'', [Some 230, Some 231])]\<rparr>"
                  "[''v'', ''p'']"]
  by (simp add: columns_of_def)

lemma filter_df_cols_columns:
  assumes "filter_df_cols df S = Inr tdf"
  shows "\<forall>n \<in> set (columns_of tdf). n \<noteq> [] \<and> [last n] \<in> set S"
  using assms by (auto simp: filter_df_cols_eq columns_of_def split: if_splits)

section \<open>Labels of the signal types\<close>

text \<open>
  C7 as stated fails: the dropdown labels are not the four names power, reactive power,
  current and voltage.
\<close>

theorem labels_counterexample:
  "map opt_label dropdown_options \<noteq> [''power'', ''reactive power'', ''current'', ''voltage'']"
  by (simp add: dropdown_options_def label_dict_def)

lemma subplot_titles_of_known:
  "set S \<subseteq> {''p'', ''q'', ''i'', ''v''} \<Longrightarrow>
   subplot_titles_of S =
     Inr (map (\<lambda>s. (if s = ''p'' then ''real power'' else if s = ''q'' then ''imaginary power''
                     else if s = ''i'' then ''current'' else ''voltage'') @ '' ('' @ s @ '')'') S)"
  by (induction S) (auto simp: label_dict_def)

text \<open>
  C7, as amended. The dropdown offers the four signal types under the names of
  \<^verbatim>\<open>label_dict\<close>: real power for p, imaginary power for q, current for i and voltage
  for v. The title of the subplot of a selected type is its name followed by the code in
  parentheses.
\<close>

theorem labels_presented:
  "dropdown_options =
     [\<lparr>opt_label = ''real power'', opt_value = ''p''\<rparr>,
      \<lparr>opt_label = ''imaginary power'', opt_value = ''q''\<rparr>,
      \<lparr>opt_label = ''current'', opt_value = ''i''\<rparr>,
      \<lparr>opt_label = ''voltage'', opt_value = ''v''\<rparr>]
   \<and> (set S \<subseteq> {''p'', ''q'', ''i'', ''v''} \<longrightarrow>
      subplot_titles_of S =
        Inr (map (\<lambda>s. (if s = ''p'' then ''real power'' else if s = ''q'' then ''imaginary power''
                        else if s = ''i'' then ''current'' else ''voltage'') @ '' ('' @ s @ '')'') S))"
  using subplot_titles_of_known [of S] by (simp add: dropdown_options_def label_dict_def)

theorem labels_presented_witness:
  "set [''q'', ''p''] \<subseteq> {''p'', ''q'', ''i'', ''v''}
   \<and> subplot_titles_of [''q'', ''p''] = Inr [''imaginary power (q)'', ''real power (p)'']"
  using labels_presented [of "[''q'', ''p'']"] by simp


section \<open>The figure loop\<close>

lemma list_index_Some_iff:
  "list_index xs x = Some k \<Longrightarrow> k < length xs \<and> xs ! k = x"
  by (induction xs arbitrary: k) (auto split: if_splits)

lemma list_index_mem:
  "x \<in> set xs \<Longrightarrow> \<exists>k. list_index xs x = Some k"
  by (induction xs) auto

lemma bind_err_InrE:
  "bind_err m f = Inr y \<Longrightarrow> (\<And>x. m = Inr x \<Longrightarrow> f x = Inr y \<Longrightarrow> P) \<Longrightarrow> P"
  by (cases m) auto

lemma plot_column_Inr:
  assumes "plot_column ar df S fo col (fig, ll) = Inr (fig', ll')"
  shows "\<exists>t s c1 d c k.
           fig' = fig\<lparr>fig_traces := fig_traces fig @ [t]\<rparr>
         \<and> getitem df col = Inr (Series s)
         \<and> tr_x t = ser_index (if fo then filter_outliers_from_series ar s else s)
         \<and> tr_y t = ser_values (if fo then filter_outliers_from_series ar s else s)
         \<and> str_at col 1 = Inr c1 \<and> int_of_char c1 = Inr d
         \<and> map_of color_dict d = Some (tr_line_color t)
         \<and> tr_name t = ''phase '' @ str_of_nat d
         \<and> tr_legendgroup t = ''phase '' @ str_of_nat d
         \<and> str_last col = Inr c \<and> list_index S [c] = Some k
         \<and> tr_row t = k + 1 \<and> tr_col t = 1 \<and> tr_row t \<le> fig_rows fig"
  using assms unfolding plot_column_def Let_def prod.case
  apply (elim bind_err_InrE)
  apply (auto simp: add_trace_def split: item.splits option.splits if_splits)
  done

lemma bind_err_neq:
  "m \<noteq> Inl e \<Longrightarrow> (\<And>x. m = Inr x \<Longrightarrow> f x \<noteq> Inl e) \<Longrightarrow> bind_err m f \<noteq> Inl e"
  by (cases m) auto

lemma plot_column_lookup_succeeds:
  assumes "str_last col = Inr c" and "[c] \<in> set S"
  shows "plot_column ar df S fo col st \<noteq> Inl NotInListValueError"
proof -
  obtain fig ll where st: "st = (fig, ll)" by (cases st)
  obtain k where k: "list_index S [c] = Some k"
    using assms(2) list_index_mem by fastforce
  show ?thesis
    unfolding st plot_column_def Let_def prod.case
    apply (intro bind_err_neq)
            apply (simp_all add: assms(1) k)
         apply (auto simp: k getitem_def str_at_def int_of_char_def add_trace_def
             split: list.splits option.splits item.splits)
    done
qed


lemma figure_loop_traces:
  assumes step: "\<And>col fig ll fig' ll'.
      plot_column ar df S fo col (fig, ll) = Inr (fig', ll') \<Longrightarrow>
      \<exists>t. fig' = fig\<lparr>fig_traces := fig_traces fig @ [t]\<rparr> \<and> Q col t"
    and run: "figure_loop ar df S fo ics ((fig, ll), i) = Inr ((fig', ll'), i')"
  shows "\<exists>ts. fig' = fig\<lparr>fig_traces := fig_traces fig @ ts\<rparr>
              \<and> list_all2 Q (map snd ics) ts
              \<and> i' = (if ics = [] then i else Some (fst (last ics)))"
  using run
proof (induction ics arbitrary: fig ll i)
  case Nil
  then show ?case by simp
next
  case (Cons ic ics)
  obtain j col where ic: "ic = (j, col)" by (cases ic)
  from Cons.prems obtain fig1 ll1 where
    one: "plot_column ar df S fo col (fig, ll) = Inr (fig1, ll1)" and
    rest: "figure_loop ar df S fo ics ((fig1, ll1), Some j) = Inr ((fig', ll'), i')"
    unfolding ic by (auto elim!: bind_err_InrE)
  from step [OF one] obtain t where
    t: "fig1 = fig\<lparr>fig_traces := fig_traces fig @ [t]\<rparr>" "Q col t" by blast
  from Cons.IH [OF rest] obtain ts where
    ts: "fig' = fig1\<lparr>fig_traces := fig_traces fig1 @ ts\<rparr>" "list_all2 Q (map snd ics) ts"
        "i' = (if ics = [] then Some j else Some (fst (last ics)))" by blast
  have "fig' = fig\<lparr>fig_traces := fig_traces fig @ (t # ts)\<rparr>"
    using t(1) ts(1) by simp
  moreover have "list_all2 Q (map snd (ic # ics)) (t # ts)"
    using t(2) ts(2) ic by simp
  moreover have "i' = Some (fst (last (ic # ics)))"
    using ts(3) ic by simp
  ultimately show ?case by (intro exI [of _ "t # ts"]) simp
qed

lemma make_figure_Inr:
  assumes step: "\<And>col fig ll fig' ll'.
      plot_column ar df S fo col (fig, ll) = Inr (fig', ll') \<Longrightarrow>
      \<exists>t. fig' = fig\<lparr>fig_traces := fig_traces fig @ [t]\<rparr> \<and> Q col t"
    and run: "make_figure ar df S fo = Inr fig"
  shows "\<exists>titles ts. subplot_titles_of S = Inr titles
           \<and> df_columns df \<noteq> []
           \<and> fig = \<lparr>fig_rows = length (df_columns df), fig_cols = 1,
                     fig_titles = take (length (df_columns df)) titles,
                     fig_traces = ts,
                     fig_height = Some (200 * length (df_columns df)),
                     fig_width = Some 600\<rparr>
           \<and> list_all2 Q (columns_of df) ts"
proof -
  let ?cols = "columns_of df"
  let ?n = "length (df_columns df)"
  have len: "length ?cols = ?n" by (simp add: columns_of_def)
  from run obtain titles fig0 st where
    titles: "subplot_titles_of S = Inr titles" and
    grid: "make_subplots ?n titles = Inr fig0" and
    loop: "figure_loop ar df S fo (zip [0..<?n] ?cols) ((fig0, []), None) = Inr st" and
    layout: "layout_step (fst (fst st)) (snd st) = Inr fig"
    unfolding make_figure_def Let_def len by (auto elim!: bind_err_InrE)
  from grid have pos: "?n \<noteq> 0" and
    fig0: "fig0 = \<lparr>fig_rows = ?n, fig_cols = 1, fig_titles = take ?n titles,
                    fig_traces = [], fig_height = None, fig_width = None\<rparr>"
    by (auto simp: make_subplots_def split: if_splits)
  obtain fig1 ll1 i1 where st: "st = ((fig1, ll1), i1)" by (cases st) auto
  have snd_zip: "map snd (zip [0..<?n] ?cols) = ?cols"
    using len by (simp add: map_snd_zip)
  have "\<exists>ts. fig1 = fig0\<lparr>fig_traces := fig_traces fig0 @ ts\<rparr>
           \<and> list_all2 Q (map snd (zip [0..<?n] ?cols)) ts
           \<and> i1 = (if zip [0..<?n] ?cols = [] then None
                     else Some (fst (last (zip [0..<?n] ?cols))))"
  proof (rule figure_loop_traces [where Q = Q and ll = "[]" and ll' = ll1])
    show "figure_loop ar df S fo (zip [0..<?n] ?cols) ((fig0, []), None) = Inr ((fig1, ll1), i1)"
      using loop st by simp
    show "\<exists>t. fig' = fig\<lparr>fig_traces := fig_traces fig @ [t]\<rparr> \<and> Q col t"
      if "plot_column ar df S fo col (fig, ll) = Inr (fig', ll')" for col fig ll fig' ll'
      using that by (rule step)
  qed
  then obtain ts where
    fig1: "fig1 = fig0\<lparr>fig_traces := fig_traces fig0 @ ts\<rparr>" and
    all: "list_all2 Q ?cols ts" and
    i1: "i1 = (if zip [0..<?n] ?cols = [] then None
               else Some (fst (last (zip [0..<?n] ?cols))))"
    unfolding snd_zip by blast
  have nonempty: "zip [0..<?n] ?cols \<noteq> []"
    using pos len by (cases ?cols) (auto simp: upt_conv_Cons)
  have "map fst (zip [0..<?n] ?cols) = [0..<?n]"
    using len by (simp add: map_fst_zip)
  then have "fst (last (zip [0..<?n] ?cols)) = last [0..<?n]"
    using nonempty by (metis last_map)
  also have "\<dots> = ?n - 1"
    using pos by (cases ?n) simp_all
  finally have i1': "i1 = Some (?n - 1)" using i1 nonempty by simp
  have "200 * (?n - 1 + 1) = 200 * ?n"
    using pos by simp
  then have "fig = update_layout fig1 (200 * ?n) 600"
    using layout unfolding st i1' layout_step_def by (simp del: mult_Suc_right add_Suc_right)
  then have "fig = \<lparr>fig_rows = ?n, fig_cols = 1, fig_titles = take ?n titles,
                     fig_traces = ts, fig_height = Some (200 * ?n), fig_width = Some 600\<rparr>"
    unfolding fig1 fig0 by (simp add: update_layout_def)
  with titles all pos show ?thesis by auto
qed


lemma make_figure_traces:
  assumes step: "\<And>col fig ll fig' ll'.
      plot_column ar df S fo col (fig, ll) = Inr (fig', ll') \<Longrightarrow>
      \<exists>t. fig' = fig\<lparr>fig_traces := fig_traces fig @ [t]\<rparr> \<and> Q col t"
    and run: "make_figure ar df S fo = Inr fig"
  shows "list_all2 Q (columns_of df) (fig_traces fig)"
proof -
  from make_figure_Inr [where Q = Q, OF _ run] step
  obtain titles ts where
    "fig = \<lparr>fig_rows = length (df_columns df), fig_cols = 1,
            fig_titles = take (length (df_columns df)) titles,
            fig_traces = ts,
            fig_height = Some (200 * length (df_columns df)),
            fig_width = Some 600\<rparr>"
    and "list_all2 Q (columns_of df) ts"
    by blast
  then show ?thesis by simp
qed

lemma plot_column_appends:
  assumes "plot_column ar df S fo col (fig, ll) = Inr (fig', ll')"
  shows "\<exists>t. fig' = fig\<lparr>fig_traces := fig_traces fig @ [t]\<rparr> \<and> True"
  using plot_column_Inr [OF assms] by blast

lemma make_figure_shape:
  assumes run: "make_figure ar df S fo = Inr fig"
  shows "df_columns df \<noteq> []"
    and "fig_rows fig = length (df_columns df)"
    and "fig_cols fig = 1"
    and "\<exists>titles. subplot_titles_of S = Inr titles
                  \<and> fig_titles fig = take (length (df_columns df)) titles"
    and "fig_height fig = Some (200 * length (df_columns df))"
    and "fig_width fig = Some 600"
    and "length (fig_traces fig) = length (df_columns df)"
proof -
  from make_figure_Inr [where Q = "\<lambda>_ _. True", OF _ run] plot_column_appends
  obtain titles ts where
    t: "subplot_titles_of S = Inr titles" and
    ne: "df_columns df \<noteq> []" and
    fig: "fig = \<lparr>fig_rows = length (df_columns df), fig_cols = 1,
            fig_titles = take (length (df_columns df)) titles,
            fig_traces = ts,
            fig_height = Some (200 * length (df_columns df)),
            fig_width = Some 600\<rparr>" and
    all: "list_all2 (\<lambda>_ _. True) (columns_of df) ts"
    by blast
  have len: "length ts = length (df_columns df)"
    using list_all2_lengthD [OF all] by (simp add: columns_of_def)
  show "df_columns df \<noteq> []" by (rule ne)
  show "fig_rows fig = length (df_columns df)" "fig_cols fig = 1"
    "fig_height fig = Some (200 * length (df_columns df))" "fig_width fig = Some 600"
    unfolding fig by simp_all
  show "\<exists>titles. subplot_titles_of S = Inr titles
                  \<and> fig_titles fig = take (length (df_columns df)) titles"
    using t unfolding fig by simp
  show "length (fig_traces fig) = length (df_columns df)"
    using len unfolding fig by simp
qed

section \<open>Evaluation on the sample frame\<close>

lemma str_of_nat_digit: "n < 10 \<Longrightarrow> str_of_nat n = [digit_chars ! n]"
  by (simp add: str_of_nat.simps)

lemmas eval_defs =
  make_figure_def plot_column_def getitem_def columns_of_def subplot_titles_of.simps
  label_dict_def color_dict_def make_subplots_def add_trace_def update_layout_def
  layout_step_def str_at_def str_last_def int_of_char_def digit_chars_def
  str_of_nat_digit py_and_def ser_min_def ser_max_def ser_values_def ser_index_def
  Let_def upt_conv_Cons

lemma exact_arith_fields:
  "a_of_int exact_arith = num_of_int" "a_add exact_arith = num_add"
  "a_sub exact_arith = num_sub" "a_mul exact_arith = num_mul"
  "a_ge exact_arith = num_ge" "a_le exact_arith = num_le"
  "a_ne_zero exact_arith = num_ne_zero" "a_truthy exact_arith = num_ne_zero"
  "a_mean exact_arith = num_mean" "a_std exact_arith = num_std"
  "a_min exact_arith = num_min" "a_max exact_arith = num_max"
  by (simp_all add: exact_arith_def)

lemmas exact_defs =
  exact_arith_fields num_of_int_def num_add_def num_sub_def num_mul_def num_le_def num_ge_def
  num_ne_zero_def num_mean_def num_std_def num_min_def num_max_def dropna_def
  List.map_filter_def

lemma sample_tdf_eq: "filter_df_cols sample_df [''v'', ''p''] = Inr sample_tdf"
  by (simp add: filter_df_cols_eq sample_df_def sample_tdf_def columns_of_def)

lemma sample_include:
  "make_figure exact_arith sample_tdf [''v'', ''p''] False =
     Inr \<lparr>fig_rows = 3, fig_cols = 1, fig_titles = [''voltage (v)'', ''real power (p)''],
          fig_traces =
            [\<lparr>tr_x = [0, 1, 2], tr_y = [Some 1, None, Some 1],
              tr_legendgroup = ''phase 1'', tr_name = ''phase 1'', tr_showlegend = True,
              tr_visible = VisibleTrue, tr_line_color = ''red'', tr_row = 2, tr_col = 1\<rparr>,
             \<lparr>tr_x = [0, 1, 2], tr_y = [Some 0, Some 0, Some 0],
              tr_legendgroup = ''phase 2'', tr_name = ''phase 2'', tr_showlegend = True,
              tr_visible = LegendOnly, tr_line_color = ''blue'', tr_row = 2, tr_col = 1\<rparr>,
             \<lparr>tr_x = [0, 1, 2], tr_y = [Some 230, Some 230, Some 230],
              tr_legendgroup = ''phase 1'', tr_name = ''phase 1'', tr_showlegend = False,
              tr_visible = VisibleTrue, tr_line_color = ''red'', tr_row = 1, tr_col = 1\<rparr>],
          fig_height = Some 600, fig_width = Some 600\<rparr>"
  by (simp add: sample_tdf_def eval_defs exact_defs)

lemma filter_outliers_L1p:
  "filter_outliers_from_series exact_arith [(0::int, Some 1), (1, None), (2, Some 1)]
     = [(0, Some 1), (2, Some 1)]"
  by (simp add: filter_outliers_from_series_def ser_mean_def ser_std_def ser_values_def
      loc_mask_def Let_def exact_defs)

lemma filter_outliers_L2p:
  "filter_outliers_from_series exact_arith [(0::int, Some 0), (1, Some 0), (2, Some 0)]
     = [(0, Some 0), (1, Some 0), (2, Some 0)]"
  by (simp add: filter_outliers_from_series_def ser_mean_def ser_std_def ser_values_def
      loc_mask_def Let_def exact_defs)

lemma filter_outliers_L1v:
  "filter_outliers_from_series exact_arith [(0::int, Some 230), (1, Some 230), (2, Some 230)]
     = [(0, Some 230), (1, Some 230), (2, Some 230)]"
  by (simp add: filter_outliers_from_series_def ser_mean_def ser_std_def ser_values_def
      loc_mask_def Let_def exact_defs)

lemma sample_remove:
  "make_figure exact_arith sample_tdf [''v'', ''p''] True =
     Inr \<lparr>fig_rows = 3, fig_cols = 1, fig_titles = [''voltage (v)'', ''real power (p)''],
          fig_traces =
            [\<lparr>tr_x = [0, 2], tr_y = [Some 1, Some 1],
              tr_legendgroup = ''phase 1'', tr_name = ''phase 1'', tr_showlegend = True,
              tr_visible = VisibleTrue, tr_line_color = ''red'', tr_row = 2, tr_col = 1\<rparr>,
             \<lparr>tr_x = [0, 1, 2], tr_y = [Some 0, Some 0, Some 0],
              tr_legendgroup = ''phase 2'', tr_name = ''phase 2'', tr_showlegend = True,
              tr_visible = LegendOnly, tr_line_color = ''blue'', tr_row = 2, tr_col = 1\<rparr>,
             \<lparr>tr_x = [0, 1, 2], tr_y = [Some 230, Some 230, Some 230],
              tr_legendgroup = ''phase 1'', tr_name = ''phase 1'', tr_showlegend = False,
              tr_visible = VisibleTrue, tr_line_color = ''red'', tr_row = 1, tr_col = 1\<rparr>],
          fig_height = Some 600, fig_width = Some 600\<rparr>"
  by (simp add: sample_tdf_def eval_defs filter_outliers_L1p filter_outliers_L2p
      filter_outliers_L1v exact_arith_fields num_min_def num_max_def num_ne_zero_def
      dropna_def List.map_filter_def)


section \<open>The outlier mode of the callback\<close>

lemma getitem_Series:
  assumes "getitem df col = Inr (Series s)" and "c \<in> set (df_columns df)" and "fst c = col"
  shows "s = zip (df_index df) (snd c)"
proof -
  from assms(1) obtain c' where
    one: "filter (\<lambda>c. fst c = col) (df_columns df) = [c']" and
    s: "s = zip (df_index df) (snd c')"
    by (auto simp: getitem_def split: list.splits)
  have "c \<in> set (filter (\<lambda>c. fst c = col) (df_columns df))"
    using assms(2,3) by simp
  then have "c = c'" unfolding one by simp
  then show ?thesis using s by simp
qed

lemma update_graph_unfold:
  assumes "filter_df_cols DF S = Inr tdf"
  shows "update_graph ar DF S radio = make_figure ar tdf S (radio \<noteq> ''include'')"
  using assms by (simp add: update_graph_def)

text \<open>
  C5. The callback plots, for every column of the selected frame, the column's series
  untouched when the radio value is \<^verbatim>\<open>include\<close>, and the series with its outliers
  removed for every other radio value: it calls \<^verbatim>\<open>make_figure\<close> with the outlier flag
  set exactly when the radio value is not \<^verbatim>\<open>include\<close>.
\<close>

theorem update_graph_outlier_mode:
  assumes "filter_df_cols DF S = Inr tdf"
    and "update_graph ar DF S radio = Inr fig"
  shows "update_graph ar DF S radio = make_figure ar tdf S (radio \<noteq> ''include'')
       \<and> list_all2
           (\<lambda>c t. zip (tr_x t) (tr_y t) =
                    (if radio = ''include'' then zip (df_index tdf) (snd c)
                     else filter_outliers_from_series ar (zip (df_index tdf) (snd c))))
           (df_columns tdf) (fig_traces fig)"
proof -
  let ?fo = "radio \<noteq> ''include''"
  let ?Q = "\<lambda>col t. \<exists>s. getitem tdf col = Inr (Series s)
                     \<and> zip (tr_x t) (tr_y t) = (if ?fo then filter_outliers_from_series ar s else s)"
  have run: "make_figure ar tdf S ?fo = Inr fig"
    using assms by (simp add: update_graph_unfold)
  have "list_all2 ?Q (columns_of tdf) (fig_traces fig)"
  proof (rule make_figure_traces [where Q = ?Q, OF _ run])
    fix col fig0 ll fig' ll'
    assume "plot_column ar tdf S ?fo col (fig0, ll) = Inr (fig', ll')"
    from plot_column_Inr [OF this] obtain t s where
      a: "fig' = fig0\<lparr>fig_traces := fig_traces fig0 @ [t]\<rparr>" and
      b: "getitem tdf col = Inr (Series s)" and
      x: "tr_x t = ser_index (if ?fo then filter_outliers_from_series ar s else s)" and
      y: "tr_y t = ser_values (if ?fo then filter_outliers_from_series ar s else s)"
      by blast
    have "zip (tr_x t) (tr_y t) = (if ?fo then filter_outliers_from_series ar s else s)"
      unfolding x y ser_index_def ser_values_def by (simp add: zip_map_fst_snd)
    with a b show "\<exists>t. fig' = fig0\<lparr>fig_traces := fig_traces fig0 @ [t]\<rparr> \<and> ?Q col t"
      by blast
  qed
  then have "list_all2 ?Q (map fst (df_columns tdf)) (fig_traces fig)"
    unfolding columns_of_def .
  then have "list_all2 (\<lambda>c t. ?Q (fst c) t) (df_columns tdf) (fig_traces fig)"
    by (simp add: list_all2_map1)
  then have "list_all2
           (\<lambda>c t. zip (tr_x t) (tr_y t) =
                    (if radio = ''include'' then zip (df_index tdf) (snd c)
                     else filter_outliers_from_series ar (zip (df_index tdf) (snd c))))
           (df_columns tdf) (fig_traces fig)"
  proof (rule list.rel_mono_strong)
    fix c t
    assume c: "c \<in> set (df_columns tdf)" and "?Q (fst c) t"
    then obtain s where s: "getitem tdf (fst c) = Inr (Series s)"
      and z: "zip (tr_x t) (tr_y t) = (if ?fo then filter_outliers_from_series ar s else s)"
      by blast
    have "s = zip (df_index tdf) (snd c)"
      using getitem_Series [OF s c] by simp
    then show "zip (tr_x t) (tr_y t) =
                 (if radio = ''include'' then zip (df_index tdf) (snd c)
                  else filter_outliers_from_series ar (zip (df_index tdf) (snd c)))"
      using z by simp
  qed
  then show ?thesis
    using update_graph_unfold [OF assms(1)] by simp
qed

lemma sample_update_remove:
  "update_graph exact_arith sample_df [''v'', ''p''] ''remove'' = make_figure exact_arith sample_tdf [''v'', ''p''] True"
  using update_graph_unfold [OF sample_tdf_eq, of exact_arith "''remove''"] by simp

theorem update_graph_outlier_mode_witness:
  "filter_df_cols sample_df [''v'', ''p''] = Inr sample_tdf
   \<and> map_sum id (map (\<lambda>t. zip (tr_x t) (tr_y t)) \<circ> fig_traces)
        (update_graph exact_arith sample_df [''v'', ''p''] ''remove'')
     = Inr [[(0, Some 1), (2, Some 1)],
            [(0, Some 0), (1, Some 0), (2, Some 0)],
            [(0, Some 230), (1, Some 230), (2, Some 230)]]"
  using update_graph_outlier_mode [OF sample_tdf_eq, of exact_arith "''remove''"]
    sample_tdf_eq sample_update_remove sample_remove
  by (simp add: sample_tdf_def filter_outliers_L1p filter_outliers_L2p filter_outliers_L1v)

section \<open>One line per column, coloured by phase\<close>

lemma int_of_char_digit:
  assumes "int_of_char c = Inr d"
  shows "d < 10" and "str_of_nat d = [c]"
proof -
  from assms have "list_index digit_chars c = Some d"
    by (simp add: int_of_char_def split: option.splits)
  from list_index_Some_iff [OF this]
  have "d < length digit_chars" "digit_chars ! d = c" by simp_all
  then show "d < 10" by (simp add: digit_chars_def)
  then show "str_of_nat d = [c]"
    using \<open>digit_chars ! d = c\<close> by (simp add: str_of_nat_digit)
qed

lemma color_dict_cases:
  assumes "map_of color_dict d = Some col"
  shows "d \<in> {1, 2, 3}"
    and "col = (if d = 1 then ''red'' else if d = 2 then ''blue'' else ''green'')"
  using assms by (auto simp: color_dict_def split: if_splits)

text \<open>
  C6. A figure that \<^verbatim>\<open>make_figure\<close> returns holds exactly one line per column of the frame,
  in column order. The phase of a column is the digit at index 1 of its name; it is 1, 2
  or 3, the line is named after it, and the colour of the line depends on the phase alone:
  red for 1, blue for 2, green for 3.
\<close>

theorem make_figure_one_line_per_column:
  assumes "make_figure ar df S fo = Inr fig"
  shows "length (fig_traces fig) = length (columns_of df)
       \<and> list_all2
           (\<lambda>col t. \<exists>c d. str_at col 1 = Inr c \<and> int_of_char c = Inr d \<and> d \<in> {1, 2, 3}
                     \<and> tr_line_color t =
                         (if d = 1 then ''red'' else if d = 2 then ''blue'' else ''green'')
                     \<and> tr_name t = ''phase '' @ [c] \<and> tr_legendgroup t = ''phase '' @ [c])
           (columns_of df) (fig_traces fig)"
proof -
  have all: "list_all2
           (\<lambda>col t. \<exists>c d. str_at col 1 = Inr c \<and> int_of_char c = Inr d \<and> d \<in> {1, 2, 3}
                     \<and> tr_line_color t =
                         (if d = 1 then ''red'' else if d = 2 then ''blue'' else ''green'')
                     \<and> tr_name t = ''phase '' @ [c] \<and> tr_legendgroup t = ''phase '' @ [c])
           (columns_of df) (fig_traces fig)"
  proof (rule make_figure_traces [OF _ assms])
    fix col fig0 ll fig' ll'
    assume "plot_column ar df S fo col (fig0, ll) = Inr (fig', ll')"
    from plot_column_Inr [OF this] obtain t c d where
      a: "fig' = fig0\<lparr>fig_traces := fig_traces fig0 @ [t]\<rparr>" and
      c: "str_at col 1 = Inr c" and d: "int_of_char c = Inr d" and
      col: "map_of color_dict d = Some (tr_line_color t)" and
      n: "tr_name t = ''phase '' @ str_of_nat d" and
      g: "tr_legendgroup t = ''phase '' @ str_of_nat d"
      by blast
    have "str_of_nat d = [c]" using int_of_char_digit(2) [OF d] .
    with a c d n g color_dict_cases [OF col]
    show "\<exists>t. fig' = fig0\<lparr>fig_traces := fig_traces fig0 @ [t]\<rparr> \<and>
              (\<exists>c d. str_at col 1 = Inr c \<and> int_of_char c = Inr d \<and> d \<in> {1, 2, 3}
                       \<and> tr_line_color t =
                           (if d = 1 then ''red'' else if d = 2 then ''blue'' else ''green'')
                       \<and> tr_name t = ''phase '' @ [c] \<and> tr_legendgroup t = ''phase '' @ [c])"
      by (intro exI [of _ t] conjI exI [of _ c] exI [of _ d]) simp_all
  qed
  have "length (fig_traces fig) = length (columns_of df)"
    using list_all2_lengthD [OF all] by simp
  with all show ?thesis by (rule conjI [rotated])
qed

theorem make_figure_one_line_per_column_witness:
  "map_sum id (map (\<lambda>t. (tr_name t, tr_line_color t)) \<circ> fig_traces)
     (make_figure exact_arith sample_tdf [''v'', ''p''] False)
   = Inr [(''phase 1'', ''red''), (''phase 2'', ''blue''), (''phase 1'', ''red'')]"
  using make_figure_one_line_per_column [OF sample_include] sample_include
  by simp

section \<open>The subplot-row lookup\<close>

lemma subplot_titles_of_error:
  "subplot_titles_of S = Inl e \<Longrightarrow> e = KeyError"
  by (induction S) (auto simp: bind_err_eq_Inl split: option.splits)

lemma figure_loop_lookup_succeeds:
  assumes "\<forall>ic \<in> set ics. \<exists>c. str_last (snd ic) = Inr c \<and> [c] \<in> set S"
  shows "figure_loop ar df S fo ics st \<noteq> Inl NotInListValueError"
  using assms
proof (induction ics arbitrary: st)
  case Nil
  then show ?case by simp
next
  case (Cons ic ics)
  obtain j col where ic: "ic = (j, col)" by (cases ic)
  from Cons.prems obtain c where c: "str_last col = Inr c" "[c] \<in> set S"
    unfolding ic by auto
  have rest: "figure_loop ar df S fo ics st' \<noteq> Inl NotInListValueError" for st'
    using Cons.IH Cons.prems by simp
  show ?case
    unfolding ic figure_loop.simps
    by (rule bind_err_neq) (simp_all add: plot_column_lookup_succeeds [OF c] rest)
qed

lemma make_figure_lookup_succeeds:
  assumes "\<forall>col \<in> set (columns_of df). \<exists>c. str_last col = Inr c \<and> [c] \<in> set S"
  shows "make_figure ar df S fo \<noteq> Inl NotInListValueError"
proof -
  have cols: "\<forall>ic \<in> set (zip [0..<length (columns_of df)] (columns_of df)).
                \<exists>c. str_last (snd ic) = Inr c \<and> [c] \<in> set S"
    using assms by (auto dest: set_zip_rightD)
  show ?thesis
    unfolding make_figure_def Let_def
    apply (intro bind_err_neq)
       apply (auto dest: subplot_titles_of_error
                   simp: make_subplots_def layout_step_def figure_loop_lookup_succeeds [OF cols]
                   split: option.splits if_splits)
    done
qed

lemma filter_df_cols_lookup:
  assumes "filter_df_cols DF S = Inr tdf" and "col \<in> set (columns_of tdf)"
  shows "\<exists>c k. str_last col = Inr c \<and> [c] \<in> set S \<and> list_index S [c] = Some k \<and> k < length S"
proof -
  from filter_df_cols_columns [OF assms(1)] assms(2)
  have ne: "col \<noteq> []" and mem: "[last col] \<in> set S" by auto
  from list_index_mem [OF mem] obtain k where k: "list_index S [last col] = Some k" by blast
  from list_index_Some_iff [OF k] have "k < length S" by simp
  with ne mem k show ?thesis by (simp add: str_last_def)
qed

text \<open>
  C8. On the frame that \<^verbatim>\<open>filter_df_cols\<close> returns for a selection \<open>S\<close>,
  \<^verbatim>\<open>make_figure\<close> with the same selection never fails at
  \<^verbatim>\<open>type_selection.index(val_type)\<close>: the lookup succeeds for every column, and every
  line of a returned figure sits in a row between 1 and the length of \<open>S\<close>.
\<close>

theorem row_lookup_never_fails:
  assumes "filter_df_cols DF S = Inr tdf"
  shows "make_figure ar tdf S fo \<noteq> Inl NotInListValueError
       \<and> update_graph ar DF S radio \<noteq> Inl NotInListValueError
       \<and> (\<forall>col \<in> set (columns_of tdf).
            \<exists>c k. str_last col = Inr c \<and> list_index S [c] = Some k \<and> k < length S)
       \<and> (\<forall>fig. make_figure ar tdf S fo = Inr fig \<longrightarrow>
            (\<forall>t \<in> set (fig_traces fig). 1 \<le> tr_row t \<and> tr_row t \<le> length S))"
proof -
  have cols: "\<forall>col \<in> set (columns_of tdf). \<exists>c. str_last col = Inr c \<and> [c] \<in> set S"
    using filter_df_cols_lookup [OF assms] by blast
  have no_fail: "make_figure ar tdf S b \<noteq> Inl NotInListValueError" for b
    using make_figure_lookup_succeeds [OF cols] .
  have rows: "\<forall>t \<in> set (fig_traces fig). 1 \<le> tr_row t \<and> tr_row t \<le> length S"
    if run: "make_figure ar tdf S fo = Inr fig" for fig
  proof -
    have "list_all2 (\<lambda>col t. 1 \<le> tr_row t \<and> tr_row t \<le> length S)
            (columns_of tdf) (fig_traces fig)"
    proof (rule make_figure_traces [OF _ run])
      fix col fig0 ll fig' ll'
      assume "plot_column ar tdf S fo col (fig0, ll) = Inr (fig', ll')"
      from plot_column_Inr [OF this] obtain t c k where
        a: "fig' = fig0\<lparr>fig_traces := fig_traces fig0 @ [t]\<rparr>" and
        k: "list_index S [c] = Some k" and r: "tr_row t = k + 1"
        by blast
      from list_index_Some_iff [OF k] have "k < length S" by simp
      with a r show "\<exists>t. fig' = fig0\<lparr>fig_traces := fig_traces fig0 @ [t]\<rparr> \<and>
                         1 \<le> tr_row t \<and> tr_row t \<le> length S"
        by (intro exI [of _ t]) simp
    qed
    then show ?thesis
      by (auto simp: list_all2_conv_all_nth in_set_conv_nth)
  qed
  show ?thesis
    using no_fail rows filter_df_cols_lookup [OF assms]
    by (simp add: update_graph_unfold [OF assms]) blast
qed

theorem row_lookup_never_fails_witness:
  "filter_df_cols sample_df [''v'', ''p''] = Inr sample_tdf
   \<and> update_graph exact_arith sample_df [''v'', ''p''] ''remove'' \<noteq> Inl NotInListValueError
   \<and> map_sum id (map tr_row \<circ> fig_traces) (make_figure exact_arith sample_tdf [''v'', ''p''] True)
       = Inr [2, 2, 1]"
  using row_lookup_never_fails [OF sample_tdf_eq, of exact_arith True "''remove''"]
    sample_tdf_eq sample_remove
  by simp


section \<open>The empty selection\<close>

lemma make_figure_no_columns:
  assumes "df_columns df = []"
  shows "make_figure ar df S fo = Inl KeyError \<or> make_figure ar df S fo = Inl RowsValueError"
proof (cases "subplot_titles_of S")
  case (Inl e)
  then show ?thesis
    using subplot_titles_of_error [OF Inl] by (simp add: make_figure_def)
next
  case (Inr titles)
  then show ?thesis
    using assms by (simp add: make_figure_def columns_of_def make_subplots_def)
qed

text \<open>
  C10. With the empty selection the callback returns no figure. It raises: IndexError
  where a column of the frame has the empty name, and otherwise the ValueError of
  \<^verbatim>\<open>make_subplots\<close> for a grid of zero rows. \<^verbatim>\<open>make_figure\<close> fails on every frame
  without columns; the loop leaves the variable \<^verbatim>\<open>i\<close> unbound there, and the layout
  step would raise for it.
\<close>

theorem update_graph_empty_selection_fails:
  "update_graph ar DF [] radio =
     (if [] \<in> set (columns_of DF) then Inl IndexError else Inl RowsValueError)
   \<and> (df_columns df = [] \<longrightarrow>
        make_figure ar df S fo = Inl KeyError \<or> make_figure ar df S fo = Inl RowsValueError)
   \<and> figure_loop ar df S fo [] ((fig, []), None) = Inr ((fig, []), None)
   \<and> layout_step fig None = Inl UnboundLocalError"
proof -
  have "update_graph ar DF [] radio =
          (if [] \<in> set (columns_of DF) then Inl IndexError else Inl RowsValueError)"
    by (simp add: update_graph_def filter_df_cols_eq make_figure_def columns_of_def
        make_subplots_def)
  then show ?thesis
    using make_figure_no_columns [of df ar S fo] by (simp add: layout_step_def)
qed

theorem update_graph_empty_selection_fails_witness:
  "update_graph exact_arith sample_df [] ''include'' = Inl RowsValueError
   \<and> df_columns empty_df = []
   \<and> make_figure exact_arith empty_df [''p''] False = Inl RowsValueError"
proof -
  have "make_figure exact_arith empty_df [''p''] False \<noteq> Inl KeyError"
    by (simp add: make_figure_def empty_df_def label_dict_def columns_of_def make_subplots_def)
  then show ?thesis
    using update_graph_empty_selection_fails
      [of exact_arith sample_df "''include''" empty_df "[''p'']" False]
    by (simp add: sample_df_def empty_df_def columns_of_def)
qed

section \<open>The subplot grid\<close>

text \<open>
  C2. The claim asks for one subplot per selected signal type. On a frame with the three
  power columns and the selection of power alone, \<^verbatim>\<open>make_figure\<close> builds a grid of
  three rows, one per column of the frame: the one title and the three lines all go to
  row 1, and rows 2 and 3 stay empty.
\<close>

theorem make_figure_rows_per_column:
  "filter_df_cols phase_df [''p''] = Inr phase_df
   \<and> map_sum id fig_rows (make_figure ar phase_df [''p''] False) = Inr 3
   \<and> map_sum id fig_titles (make_figure ar phase_df [''p''] False) = Inr [''real power (p)'']
   \<and> map_sum id (map tr_row \<circ> fig_traces) (make_figure ar phase_df [''p''] False) = Inr [1, 1, 1]
   \<and> length [''p''] = 1"
  by (simp add: phase_df_def filter_df_cols_eq eval_defs)

section \<open>The timestamp index\<close>

lemma filter_replaced_other:
  "l \<noteq> l' \<Longrightarrow>
   filter (\<lambda>c. fst c = l) (map (\<lambda>c. if fst c = l' then (l', v) else c) cols)
     = filter (\<lambda>c. fst c = l) cols"
  by (induction cols) auto

lemma filter_replaced_same:
  "filter (\<lambda>c. fst c = l) (map (\<lambda>c. if fst c = l then (l, v) else c) cols)
     = map (\<lambda>c. (l, v)) (filter (\<lambda>c. fst c = l) cols)"
  by (induction cols) auto

lemma filter_replaced_drop:
  "l \<in> L \<Longrightarrow>
   filter (\<lambda>c. fst c \<notin> L) (map (\<lambda>c. if fst c = l then (l, v) else c) cols)
     = filter (\<lambda>c. fst c \<notin> L) cols"
  by (induction cols) auto

lemma labels_replaced:
  "map fst (map (\<lambda>c. if fst c = l then (l, v) else c) cols) = map fst cols"
  by (induction cols) auto

lemma filter_label_absent:
  "l \<notin> set (map fst cols) \<Longrightarrow> filter (\<lambda>c. fst c = l) cols = []"
  by (induction cols) auto

lemma filter_label_absent_neq:
  "l \<notin> set (map fst cols) \<Longrightarrow> filter (\<lambda>c. fst c \<noteq> l) cols = cols"
  by (induction cols) auto

lemma filter_singleton_mem:
  "filter (\<lambda>c. fst c = l) cols = [x] \<Longrightarrow> l \<in> set (map fst cols)"
proof -
  assume "filter (\<lambda>c. fst c = l) cols = [x]"
  then have "x \<in> set (filter (\<lambda>c. fst c = l) cols)" by simp
  then show ?thesis by force
qed

text \<open>
  C4, as amended. For a frame with exactly one \<^verbatim>\<open>day\<close> column, exactly one
  \<^verbatim>\<open>time\<close> column and no \<^verbatim>\<open>datetime\<close> column, on which the conversion of the
  \<^verbatim>\<open>time\<close> column to time spans, the conversion of the \<^verbatim>\<open>day\<close> column to time
  stamps and the sum of the two converted columns all succeed, \<^verbatim>\<open>prep_datetime\<close> returns
  the frame indexed by that sum, the converted day plus the converted time of every row,
  without the \<^verbatim>\<open>day\<close> and \<^verbatim>\<open>time\<close> columns and with every other column unchanged. The
  caller's frame keeps the converted \<^verbatim>\<open>time\<close> column and gains the \<^verbatim>\<open>datetime\<close>
  column.
\<close>

theorem prep_datetime_result:
  assumes day: "filter (\<lambda>c. fst c = ''day'') (df_columns df) = [(''day'', day_cells)]"
    and time: "filter (\<lambda>c. fst c = ''time'') (df_columns df) = [(''time'', time_cells)]"
    and no_datetime: "''datetime'' \<notin> set (columns_of df)"
    and spans: "pd_apply_timedelta ops time_cells = Inr spans"
    and days: "pd_to_datetime ops day_cells = Inr days"
    and stamps: "pd_add ops days spans = Inr stamps"
  shows "prep_datetime ops df =
           Inr (df\<lparr>df_columns :=
                     map (\<lambda>c. if fst c = ''time'' then (''time'', spans) else c) (df_columns df)
                     @ [(''datetime'', stamps)]\<rparr>,
                \<lparr>df_index = stamps,
                 df_columns = filter (\<lambda>c. fst c \<notin> {''day'', ''time''}) (df_columns df)\<rparr>)"
proof -
  let ?cols = "df_columns df"
  let ?cols1 = "map (\<lambda>c. if fst c = ''time'' then (''time'', spans) else c) ?cols"
  let ?df1 = "df\<lparr>df_columns := ?cols1\<rparr>"
  let ?df2 = "df\<lparr>df_columns := ?cols1 @ [(''datetime'', stamps)]\<rparr>"
  have time_mem: "''time'' \<in> set (map fst ?cols)" and day_mem: "''day'' \<in> set (map fst ?cols)"
    using filter_singleton_mem [OF time] filter_singleton_mem [OF day] by simp_all
  have nodt: "''datetime'' \<notin> set (map fst ?cols)"
    using no_datetime by (simp add: columns_of_def)
  have single: "\<not> list_ex (\<lambda>l. 1 < label_count df l) [''day'', ''time'', ''datetime'']"
    using filter_label_absent [OF nodt] by (simp add: label_count_def day time)
  have s1: "getcol df ''time'' = Inr time_cells"
    by (simp add: getcol_def time)
  have s3: "setitem df ''time'' spans = ?df1"
    using time_mem by (simp add: setitem_def columns_of_def)
  have s4: "getcol ?df1 ''day'' = Inr day_cells"
    by (simp add: getcol_def filter_replaced_other day)
  have s6: "getcol ?df1 ''time'' = Inr spans"
    by (simp add: getcol_def filter_replaced_same time)
  have s8: "setitem ?df1 ''datetime'' stamps = ?df2"
    using nodt by (simp add: setitem_def columns_of_def labels_replaced del: map_map)
  have nodt1: "''datetime'' \<notin> set (map fst ?cols1)"
    unfolding labels_replaced by (rule nodt)
  have s9: "set_index ?df2 ''datetime'' = Inr \<lparr>df_index = stamps, df_columns = ?cols1\<rparr>"
    using filter_label_absent [OF nodt1] filter_label_absent_neq [OF nodt1]
    by (simp add: set_index_def getcol_def)
  have s10: "drop_columns \<lparr>df_index = stamps, df_columns = ?cols1\<rparr> [''day'', ''time'']
               = Inr \<lparr>df_index = stamps,
                      df_columns = filter (\<lambda>c. fst c \<notin> {''day'', ''time''}) ?cols\<rparr>"
    using time_mem day_mem
      filter_replaced_drop [of "''time''" "{''day'', ''time''}" spans ?cols]
    by (simp add: drop_columns_def columns_of_def labels_replaced del: map_map)
  show ?thesis
    unfolding prep_datetime_def if_not_P [OF single] s1 bind_err_simps spans Let_def s3 s4
      days s6 stamps s8 s9 s10 ..
qed

text \<open>
  C4 as stated fails on frames that have a \<^verbatim>\<open>day\<close> and a \<^verbatim>\<open>time\<close> column. On a
  frame that already has a \<^verbatim>\<open>datetime\<close> column, the column is overwritten by the time
  stamps and becomes the index, so it is not among the columns of the result. On a frame
  whose time cell is no time span, on a frame whose day cell is no day, on a frame with
  two \<^verbatim>\<open>time\<close> columns, on a frame with two \<^verbatim>\<open>day\<close> columns, and on a frame whose
  day plus time lies past the last time stamp, the function raises and returns no frame.
\<close>

theorem prep_datetime_counterexample:
  "map_sum id (columns_of \<circ> snd) (prep_datetime sample_ops raw_df_datetime) = Inr [''L1p'']
   \<and> columns_of raw_df_datetime = [''day'', ''time'', ''datetime'', ''L1p'']
   \<and> prep_datetime sample_ops raw_df_no_span = Inl ParseValueError
   \<and> prep_datetime sample_ops raw_df_no_day = Inl ParseValueError
   \<and> prep_datetime sample_ops raw_df_two_times = Inl FrameValueError
   \<and> prep_datetime sample_ops raw_df_two_days = Inl FrameValueError
   \<and> prep_datetime sample_ops raw_df_late = Inl OverflowError"
  by (simp add: prep_datetime_def raw_df_datetime_def raw_df_no_span_def raw_df_no_day_def
      raw_df_two_times_def raw_df_two_days_def raw_df_late_def sample_ops_def
      sample_apply_timedelta_def sample_to_datetime_def sample_add_def label_count_def
      getcol_def setitem_def set_index_def drop_columns_def columns_of_def Let_def)

theorem prep_datetime_result_witness:
  "map_sum id snd (prep_datetime sample_ops raw_df) =
     Inr \<lparr>df_index = [Timestamp 1577836801000000000, Timestamp 1577836802000000000],
          df_columns = [(''L1p'', [Num 1, Num 2])]\<rparr>"
  using prep_datetime_result [of raw_df "[Str ''2020-01-01'', Str ''2020-01-01'']"
      "[Str ''00:00:01'', Str ''00:00:02'']" sample_ops
      "[Timedelta 1000000000, Timedelta 2000000000]"
      "[Timestamp 1577836800000000000, Timestamp 1577836800000000000]"
      "[Timestamp 1577836801000000000, Timestamp 1577836802000000000]"]
  by (simp add: raw_df_def sample_ops_def sample_apply_timedelta_def sample_to_datetime_def
      sample_add_def columns_of_def)

end
